theory Spec2Isabelle
  imports Complex_Main
begin

section \<open>Simply Invest: the model of \<open>static/app.js\<close>\<close>

text \<open>
  The application keeps three entries in the browser's \<open>localStorage\<close>: \<open>users\<close> (a JSON
  array of user objects), \<open>stockPrices\<close> (a JSON object from symbol to price) and
  \<open>currentUser\<close> (a plain string, or absent). Every function of \<open>app.js\<close> reads these
  entries, computes, and writes them back, so each function is modelled as a function from
  the storage to a result and the new storage.

  Numbers. A JavaScript number is a double; JSON stores only the finite ones. The model
  takes the numbers of the storage to be exact rationals (every finite double is one) and
  computes \<open>+\<close>, \<open>-\<close>, \<open>*\<close>, \<open>/\<close> exactly: the rounding of the double operations, overflow
  and the infinities are outside the model. The value \<open>NaN\<close> of an argument is \<open>None\<close>.
  The one division whose divisor can be zero (in \<open>updatePortfolio\<close>) is guarded in the
  model: there the JavaScript result is \<open>Infinity\<close> or \<open>NaN\<close>, which the model does not
  represent, and the model returns \<open>None\<close> for the whole call.

  Arguments. A stock symbol is a string and the price table a map from strings (the
  keys that JavaScript finds on \<open>Object.prototype\<close> are not modelled); the index of
  \<open>sellInvestment\<close> is an integer; an amount or an age is a rational or \<open>NaN\<close>.

  Platform functions. \<open>Math.random()\<close> is a parameter of the functions that call it (the
  number drawn, in \<open>[0, 1)\<close>); the SHA-256 digest of \<open>hashPassword\<close> and
  \<open>String.prototype.toLowerCase\<close> are the fields of a record \<open>platform\<close> that
  \<open>registerUser\<close> and \<open>loginUser\<close> take. The \<open>await\<close> of the digest is sequential: nothing
  else runs in between.
\<close>

subsection \<open>Data\<close>

text \<open>An investment object, as \<open>investCoins\<close> builds it.\<close>

record holding =
  symbol :: string
  quantity :: rat
  priceAtPurchase :: rat
  investedAmount :: rat

text \<open>A user object, as \<open>registerUser\<close> builds it.\<close>

record user =
  username :: string
  age :: rat
  passwordHash :: string
  coins :: rat
  portfolio :: "holding list"

text \<open>The three entries of \<open>localStorage\<close>.\<close>

record storage =
  users :: "user list"
  stockPrices :: "string \<rightharpoonup> rat"
  currentUser :: "string option"

text \<open>The browser functions that registration and login call.\<close>

record platform =
  sha256hex :: "string \<Rightarrow> string"
  toLowerCase :: "string \<Rightarrow> string"

text \<open>
  The result objects: \<open>{success: false, message}\<close>, \<open>{success: false}\<close>,
  \<open>{success: true}\<close>, \<open>{success: true, price, quantity}\<close> and \<open>{success: true, value}\<close>.
\<close>

datatype result =
  Failure string
  | Failed
  | Success
  | Bought rat rat
  | Sold rat

fun success :: "result \<Rightarrow> bool" where
  "success (Failure m) = False"
| "success Failed = False"
| "success Success = True"
| "success (Bought p q) = True"
| "success (Sold v) = True"

subsection \<open>Array and number helpers of JavaScript\<close>

text \<open>\<open>Array.prototype.findIndex\<close>: the first index whose element satisfies the predicate.\<close>

fun findIndex :: "('a \<Rightarrow> bool) \<Rightarrow> 'a list \<Rightarrow> nat option" where
  "findIndex P [] = None"
| "findIndex P (x # xs) =
     (if P x then Some 0 else (case findIndex P xs of None \<Rightarrow> None | Some i \<Rightarrow> Some (Suc i)))"

text \<open>
  \<open>parseFloat(x.toFixed(2))\<close>: \<open>toFixed\<close> sets the sign aside, takes the integer \<open>n\<close> with
  \<open>n / 100\<close> nearest to the absolute value (the larger \<open>n\<close> on a tie) and prints it with two
  decimals; \<open>parseFloat\<close> reads the number back.
\<close>

definition toFixed2 :: "rat \<Rightarrow> rat" where
  "toFixed2 x =
     (if x < 0 then - (of_int \<lfloor>(- x) * 100 + 1 / 2\<rfloor> / 100)
      else of_int \<lfloor>x * 100 + 1 / 2\<rfloor> / 100)"

subsection \<open>Users and the session\<close>

text \<open>\<open>getUsers\<close> and \<open>saveUsers\<close> read and write the \<open>users\<close> entry.\<close>

definition getUsers :: "storage \<Rightarrow> user list" where
  "getUsers st = users st"

definition saveUsers :: "user list \<Rightarrow> storage \<Rightarrow> storage" where
  "saveUsers us st = st\<lparr>users := us\<rparr>"

text \<open>
  \<open>registerUser(username, age, password)\<close>. \<open>!username\<close> holds for the empty string;
  \<open>age\<close> is \<open>None\<close> when it is \<open>NaN\<close>.
\<close>

definition registerUser ::
  "platform \<Rightarrow> string \<Rightarrow> rat option \<Rightarrow> string \<Rightarrow> storage \<Rightarrow> result \<times> storage" where
  "registerUser pf uname ag password st =
     (if uname = [] then (Failure ''Username is required.'', st)
      else (case ag of
        None \<Rightarrow> (Failure ''You must be at least 13 years old to register.'', st)
      | Some a \<Rightarrow>
          if a < 13 then (Failure ''You must be at least 13 years old to register.'', st)
          else
            let us = getUsers st in
            (case find (\<lambda>u. toLowerCase pf (username u) = toLowerCase pf uname) us of
              Some u \<Rightarrow> (Failure ''Username already exists.'', st)
            | None \<Rightarrow>
                let pwHash = sha256hex pf password;
                    newUser = \<lparr>username = uname, age = a, passwordHash = pwHash,
                               coins = 100000, portfolio = []\<rparr>;
                    st1 = saveUsers (us @ [newUser]) st;
                    st2 = st1\<lparr>currentUser := Some uname\<rparr>
                in (Success, st2))))"

text \<open>\<open>loginUser(username, password)\<close>.\<close>

definition loginUser :: "platform \<Rightarrow> string \<Rightarrow> string \<Rightarrow> storage \<Rightarrow> result \<times> storage" where
  "loginUser pf uname password st =
     (let us = getUsers st in
      (case find (\<lambda>u. toLowerCase pf (username u) = toLowerCase pf uname) us of
        None \<Rightarrow> (Failure ''User not found.'', st)
      | Some u \<Rightarrow>
          if sha256hex pf password \<noteq> passwordHash u then (Failure ''Incorrect password.'', st)
          else (Success, st\<lparr>currentUser := Some (username u)\<rparr>)))"

text \<open>
  \<open>getCurrentUserObject()\<close>: \<open>!username\<close> holds when the entry is absent and when it is the
  empty string.
\<close>

definition getCurrentUserObject :: "storage \<Rightarrow> user option" where
  "getCurrentUserObject st =
     (case currentUser st of
        None \<Rightarrow> None
      | Some uname \<Rightarrow>
          if uname = [] then None
          else find (\<lambda>u. username u = uname) (getUsers st))"

text \<open>\<open>updateUser(updatedUser)\<close>: overwrites the first record of that username, if any.\<close>

definition updateUser :: "user \<Rightarrow> storage \<Rightarrow> storage" where
  "updateUser updatedUser st =
     (let us = getUsers st in
      (case findIndex (\<lambda>u. username u = username updatedUser) us of
        Some idx \<Rightarrow> saveUsers (us[idx := updatedUser]) st
      | None \<Rightarrow> st))"

text \<open>\<open>logout()\<close> removes the session entry (the redirect of the page is not modelled).\<close>

definition logout :: "storage \<Rightarrow> storage" where
  "logout st = st\<lparr>currentUser := None\<rparr>"

subsection \<open>Prices\<close>

definition getStockPrices :: "storage \<Rightarrow> (string \<rightharpoonup> rat)" where
  "getStockPrices st = stockPrices st"

definition saveStockPrices :: "(string \<rightharpoonup> rat) \<Rightarrow> storage \<Rightarrow> storage" where
  "saveStockPrices prices st = st\<lparr>stockPrices := prices\<rparr>"

text \<open>The table \<open>base\<close> of \<open>getStockPrice\<close>.\<close>

definition base :: "string \<rightharpoonup> rat" where
  "base = [''AAPL'' \<mapsto> 150, ''AMZN'' \<mapsto> 3200, ''TSLA'' \<mapsto> 700, ''GOOG'' \<mapsto> 2800,
           ''NFLX'' \<mapsto> 500, ''NVDA'' \<mapsto> 450, ''MSFT'' \<mapsto> 350, ''META'' \<mapsto> 300]"

text \<open>
  A price read from a table is falsy (\<open>!price\<close>) when the key is absent (\<open>undefined\<close>) and
  when the number is 0.
\<close>

definition truthy :: "rat option \<Rightarrow> bool" where
  "truthy v = (case v of None \<Rightarrow> False | Some p \<Rightarrow> p \<noteq> 0)"

text \<open>\<open>getStockPrice(symbol)\<close>: the price of the table, seeded from \<open>base\<close> (or 100).\<close>

definition getStockPrice :: "string \<Rightarrow> storage \<Rightarrow> rat \<times> storage" where
  "getStockPrice symb st =
     (let prices = getStockPrices st in
      if \<not> truthy (prices symb) then
        let seed = (if truthy (base symb) then the (base symb) else 100);
            prices1 = prices(symb \<mapsto> seed)
        in (seed, saveStockPrices prices1 st)
      else (the (prices symb), st))"

text \<open>
  The two steps of \<open>updateStockPrice\<close> before the clamp: the variation
  \<open>Math.random() * 0.1 - 0.05\<close> for the number \<open>r\<close> drawn, and the product
  \<open>price * (1 + variation)\<close>.
\<close>

definition variation :: "rat \<Rightarrow> rat" where
  "variation r = r * (1 / 10) - 5 / 100"

definition varied :: "rat \<Rightarrow> rat \<Rightarrow> rat" where
  "varied price r = price * (1 + variation r)"

text \<open>
  The price \<open>updateStockPrice\<close> starts from: the one of the table when it is truthy, the one
  \<open>getStockPrice\<close> seeds otherwise.
\<close>

definition startPrice :: "string \<Rightarrow> storage \<Rightarrow> rat \<times> storage" where
  "startPrice symb st =
     (let prices = getStockPrices st in
      if \<not> truthy (prices symb) then getStockPrice symb st else (the (prices symb), st))"

text \<open>
  \<open>updateStockPrice(symbol)\<close> with the number \<open>r\<close> that \<open>Math.random()\<close> returns. The
  table written at the end is the one read at the start, with the new price of the symbol
  (the seed that \<open>getStockPrice\<close> may have saved in between is overwritten).
\<close>

definition updateStockPrice :: "rat \<Rightarrow> string \<Rightarrow> storage \<Rightarrow> rat \<times> storage" where
  "updateStockPrice r symb st =
     (let prices = getStockPrices st;
          (price, st1) = startPrice symb st;
          newPrice = varied price r;
          newPrice1 = (if newPrice < 1 then 1 else newPrice);
          prices1 = prices(symb \<mapsto> toFixed2 newPrice1)
      in (the (prices1 symb), saveStockPrices prices1 st1))"

subsection \<open>The portfolio\<close>

text \<open>
  \<open>investCoins(symbol, amount)\<close>. The argument is the number \<open>parseFloat(amount)\<close> yields,
  \<open>None\<close> for \<open>NaN\<close>.
\<close>

definition investCoins :: "string \<Rightarrow> rat option \<Rightarrow> storage \<Rightarrow> result \<times> storage" where
  "investCoins symb amount st =
     (case getCurrentUserObject st of
        None \<Rightarrow> (Failure ''Not logged in.'', st)
      | Some usr \<Rightarrow>
          (case amount of
            None \<Rightarrow> (Failure ''Please enter a valid amount.'', st)
          | Some a \<Rightarrow>
              if a \<le> 0 then (Failure ''Please enter a valid amount.'', st)
              else if a > coins usr then (Failure ''You do not have enough coins.'', st)
              else
                let (price, st1) = getStockPrice symb st;
                    qty = a / price;
                    investment = \<lparr>symbol = symb, quantity = qty, priceAtPurchase = price,
                                  investedAmount = a\<rparr>;
                    usr1 = usr\<lparr>coins := toFixed2 (coins usr - a)\<rparr>;
                    usr2 = usr1\<lparr>portfolio := portfolio usr1 @ [investment]\<rparr>
                in (Bought price qty, updateUser usr2 st1)))"

text \<open>
  The callback of \<open>user.portfolio.map\<close> in \<open>updatePortfolio\<close>, run over the holdings in
  order. It threads the storage (each \<open>updateStockPrice\<close> writes the price table) and
  \<open>user.coins\<close>; \<open>rnd k\<close> is the number the \<open>k\<close>-th call of \<open>Math.random()\<close> returns. A
  holding whose \<open>priceAtPurchase\<close> is 0 makes \<open>pctChange\<close> infinite: the model stops with
  \<open>None\<close>.
\<close>

fun revalue ::
  "(nat \<Rightarrow> rat) \<Rightarrow> nat \<Rightarrow> holding list \<Rightarrow> storage \<Rightarrow> rat \<Rightarrow> (holding list \<times> storage \<times> rat) option" where
  "revalue rnd k [] st c = Some ([], st, c)"
| "revalue rnd k (invm # invs) st c =
     (let (newPrice, st1) = updateStockPrice (rnd k) (symbol invm) st;
          oldPrice = priceAtPurchase invm
      in if oldPrice = 0 then None
         else
           let pctChange = (newPrice - oldPrice) / oldPrice;
               profitLoss = investedAmount invm * pctChange;
               c1 = toFixed2 (c + profitLoss);
               inv1 = invm\<lparr>priceAtPurchase := newPrice\<rparr>;
               inv2 = inv1\<lparr>investedAmount := quantity inv1 * newPrice\<rparr>
           in (case revalue rnd (Suc k) invs st1 c1 of
                 None \<Rightarrow> None
               | Some (invs1, st2, c2) \<Rightarrow> Some (inv2 # invs1, st2, c2)))"

text \<open>\<open>updatePortfolio()\<close>.\<close>

definition updatePortfolio :: "(nat \<Rightarrow> rat) \<Rightarrow> storage \<Rightarrow> (result \<times> storage) option" where
  "updatePortfolio rnd st =
     (case getCurrentUserObject st of
        None \<Rightarrow> Some (Failed, st)
      | Some usr \<Rightarrow>
          (case revalue rnd 0 (portfolio usr) st (coins usr) of
            None \<Rightarrow> None
          | Some (invs, st1, c) \<Rightarrow>
              Some (Success, updateUser (usr\<lparr>coins := c, portfolio := invs\<rparr>) st1)))"

text \<open>
  \<open>sellInvestment(index)\<close> with the number \<open>r\<close> that \<open>Math.random()\<close> returns; the index
  is an integer. \<open>splice(index, 1)\<close> removes the element at \<open>index\<close>.
\<close>

definition sellInvestment :: "rat \<Rightarrow> int \<Rightarrow> storage \<Rightarrow> result \<times> storage" where
  "sellInvestment r index st =
     (case getCurrentUserObject st of
        None \<Rightarrow> (Failed, st)
      | Some usr \<Rightarrow>
          if index < 0 \<or> index \<ge> int (length (portfolio usr)) then (Failed, st)
          else
            let invm = portfolio usr ! nat index;
                (currentPrice, st1) = updateStockPrice r (symbol invm) st;
                val = quantity invm * currentPrice;
                usr1 = usr\<lparr>coins := toFixed2 (coins usr + val)\<rparr>;
                usr2 = usr1\<lparr>portfolio := take (nat index) (portfolio usr1) @
                                           drop (Suc (nat index)) (portfolio usr1)\<rparr>
            in (Sold val, updateUser usr2 st1))"

subsection \<open>Sample data\<close>

text \<open>
  The storage of a fresh browser profile, and a platform for the examples: lower-casing of
  the ASCII letters, and a stand-in for the digest (the theorems hold for every platform).
\<close>

definition emptyStorage :: storage where
  "emptyStorage = \<lparr>users = [], stockPrices = Map.empty, currentUser = None\<rparr>"

definition lowerChar :: "char \<Rightarrow> char" where
  "lowerChar c =
     (let n = (of_char c :: nat) in if 65 \<le> n \<and> n \<le> 90 then char_of (n + 32) else c)"

definition demoPlatform :: platform where
  "demoPlatform = \<lparr>sha256hex = (\<lambda>pw. ''sha256:'' @ pw), toLowerCase = map lowerChar\<rparr>"

text \<open>The numbers \<open>Math.random()\<close> returns when it returns its least value each time.\<close>

definition lowDraws :: "nat \<Rightarrow> rat" where
  "lowDraws k = 0"

text \<open>The scenario of the specification: \<open>alice\<close>, aged 20, registers.\<close>

definition aliceUser :: user where
  "aliceUser = \<lparr>username = ''alice'', age = 20, passwordHash = ''sha256:pw'',
                 coins = 100000, portfolio = []\<rparr>"

definition aliceStorage :: storage where
  "aliceStorage = snd (registerUser demoPlatform ''alice'' (Some 20) ''pw'' emptyStorage)"

text \<open>Then she buys AAPL for 1000 coins, at the seeded price 150.\<close>

definition aliceHolding :: holding where
  "aliceHolding = \<lparr>symbol = ''AAPL'', quantity = 20 / 3, priceAtPurchase = 150,
                    investedAmount = 1000\<rparr>"

definition boughtUser :: user where
  "boughtUser = aliceUser\<lparr>coins := 99000, portfolio := [aliceHolding]\<rparr>"

definition boughtStorage :: storage where
  "boughtStorage = snd (investCoins ''AAPL'' (Some 1000) aliceStorage)"

text \<open>Or else she puts all her 100000 coins into AAPL.\<close>

definition allInStorage :: storage where
  "allInStorage = snd (investCoins ''AAPL'' (Some 100000) aliceStorage)"

text \<open>
  Or she buys AAPL for 99999 coins and AMZN for 1 coin, and \<open>updatePortfolio\<close> runs with the
  least numbers drawn.
\<close>

definition debtStorage :: storage where
  "debtStorage =
     snd (the (updatePortfolio lowDraws
       (snd (investCoins ''AMZN'' (Some 1)
         (snd (investCoins ''AAPL'' (Some 99999) aliceStorage))))))"

text \<open>She logs out.\<close>

definition loggedOutStorage :: storage where
  "loggedOutStorage = logout aliceStorage"

text \<open>A storage whose session entry names nobody who is stored.\<close>

definition strangerStorage :: storage where
  "strangerStorage = aliceStorage\<lparr>currentUser := Some ''bob''\<rparr>"

subsection \<open>The storages the application produces\<close>

text \<open>
  The storage is only written by the functions above, starting from the empty one. Three
  facts hold of every storage they produce, and the theorems below name them where they
  need them: no stored username is empty, every price of the table is at least 1, and
  every holding has a \<open>priceAtPurchase\<close> of at least 1 and a positive quantity.
\<close>

definition wfHolding :: "holding \<Rightarrow> bool" where
  "wfHolding h \<longleftrightarrow> 1 \<le> priceAtPurchase h \<and> 0 < quantity h"

definition wfUser :: "user \<Rightarrow> bool" where
  "wfUser u \<longleftrightarrow> username u \<noteq> [] \<and> (\<forall>h \<in> set (portfolio u). wfHolding h)"

definition wellformed :: "storage \<Rightarrow> bool" where
  "wellformed st \<longleftrightarrow>
     (\<forall>u \<in> set (users st). wfUser u) \<and> (\<forall>p \<in> ran (stockPrices st). 1 \<le> p)"

text \<open>
  The storages reached from the empty one by calls of the functions, with any arguments and
  any numbers in \<open>[0, 1)\<close> from \<open>Math.random()\<close>.
\<close>

inductive reachable :: "platform \<Rightarrow> storage \<Rightarrow> bool" for pf :: platform where
  fresh: "reachable pf emptyStorage"
| register: "reachable pf st \<Longrightarrow> reachable pf (snd (registerUser pf uname ag password st))"
| login: "reachable pf st \<Longrightarrow> reachable pf (snd (loginUser pf uname password st))"
| logout: "reachable pf st \<Longrightarrow> reachable pf (logout st)"
| price: "reachable pf st \<Longrightarrow> reachable pf (snd (getStockPrice symb st))"
| update: "reachable pf st \<Longrightarrow> 0 \<le> r \<Longrightarrow> r < 1 \<Longrightarrow>
           reachable pf (snd (updateStockPrice r symb st))"
| invest: "reachable pf st \<Longrightarrow> reachable pf (snd (investCoins symb amount st))"
| revalueAll: "reachable pf st \<Longrightarrow> \<forall>k. 0 \<le> rnd k \<and> rnd k < 1 \<Longrightarrow>
           updatePortfolio rnd st = Some (res, st') \<Longrightarrow> reachable pf st'"
| sell: "reachable pf st \<Longrightarrow> 0 \<le> r \<Longrightarrow> r < 1 \<Longrightarrow>
           reachable pf (snd (sellInvestment r index st))"

section \<open>Facts about the helpers\<close>

lemma toFixed2_nonneg: "0 \<le> x \<Longrightarrow> 0 \<le> toFixed2 x"
  by (simp add: toFixed2_def)

lemma findIndex_find:
  "find P xs = Some x \<Longrightarrow> \<exists>i. findIndex P xs = Some i \<and> i < length xs \<and> xs ! i = x"
  by (induction xs) (auto split: if_splits)

lemma find_update:
  "findIndex P xs = Some i \<Longrightarrow> P y \<Longrightarrow> find P (xs[i := y]) = Some y"
  by (induction xs arbitrary: i) (auto split: if_splits option.splits)

lemma toFixed2_ge1: "1 \<le> x \<Longrightarrow> 1 \<le> toFixed2 x"
  by (simp add: toFixed2_def)

lemma getStockPrice_frame:
  "users (snd (getStockPrice symb st)) = users st"
  "currentUser (snd (getStockPrice symb st)) = currentUser st"
  by (simp_all add: getStockPrice_def saveStockPrices_def Let_def)

lemma base_ge100: "truthy (base symb) \<Longrightarrow> 100 \<le> the (base symb)"
  by (simp add: base_def truthy_def split: if_splits)

lemma getStockPrice_nonzero: "fst (getStockPrice symb st) \<noteq> 0"
  using base_ge100 [of symb]
  by (auto simp add: getStockPrice_def Let_def truthy_def split: option.splits)

lemma startPrice_frame:
  "users (snd (startPrice symb st)) = users st"
  "currentUser (snd (startPrice symb st)) = currentUser st"
  by (simp_all add: startPrice_def getStockPrice_frame Let_def)

lemma startPrice_nonzero: "fst (startPrice symb st) \<noteq> 0"
  using getStockPrice_nonzero [of symb st]
  by (auto simp add: startPrice_def Let_def truthy_def split: option.splits)

lemma updateStockPrice_eq:
  "updateStockPrice r symb st =
     (toFixed2 (max 1 (varied (fst (startPrice symb st)) r)),
      (snd (startPrice symb st))
        \<lparr>stockPrices :=
           (stockPrices st)(symb \<mapsto> toFixed2 (max 1 (varied (fst (startPrice symb st)) r)))\<rparr>)"
  by (simp add: updateStockPrice_def saveStockPrices_def getStockPrices_def Let_def max_def
      case_prod_beta)

lemma updateStockPrice_fst:
  "fst (updateStockPrice r symb st) = toFixed2 (max 1 (varied (fst (startPrice symb st)) r))"
  by (simp add: updateStockPrice_eq)

lemma updateStockPrice_frame:
  "users (snd (updateStockPrice r symb st)) = users st"
  "currentUser (snd (updateStockPrice r symb st)) = currentUser st"
  by (simp_all add: updateStockPrice_eq startPrice_frame)

lemma updateStockPrice_prices:
  "stockPrices (snd (updateStockPrice r symb st)) =
     (stockPrices st)(symb \<mapsto> fst (updateStockPrice r symb st))"
  by (simp add: updateStockPrice_eq)

lemma updateStockPrice_ge1: "1 \<le> fst (updateStockPrice r symb st)"
  by (simp add: updateStockPrice_fst toFixed2_ge1)

lemma getCurrentUserObject_frame:
  "users st' = users st \<Longrightarrow> currentUser st' = currentUser st \<Longrightarrow>
   getCurrentUserObject st' = getCurrentUserObject st"
  by (simp add: getCurrentUserObject_def getUsers_def split: option.splits)

lemma getCurrentUserObject_username:
  "getCurrentUserObject st = Some usr \<Longrightarrow> currentUser st = Some (username usr) \<and> username usr \<noteq> []"
  by (auto simp add: getCurrentUserObject_def split: option.splits if_splits dest: find_Some_iff [THEN iffD1])

lemma updateUser_frame:
  "currentUser (updateUser u st) = currentUser st"
  "stockPrices (updateUser u st) = stockPrices st"
  by (simp_all add: updateUser_def saveUsers_def Let_def split: option.splits)

lemma getCurrentUserObject_updateUser:
  assumes "getCurrentUserObject st = Some usr" and "username usr' = username usr"
  shows "getCurrentUserObject (updateUser usr' st) = Some usr'"
proof -
  from assms(1) have cu: "currentUser st = Some (username usr)" and ne: "username usr \<noteq> []"
    using getCurrentUserObject_username by blast+
  from assms(1) cu ne have f: "find (\<lambda>u. username u = username usr) (users st) = Some usr"
    by (simp add: getCurrentUserObject_def getUsers_def)
  then obtain i where i: "findIndex (\<lambda>u. username u = username usr) (users st) = Some i"
    using findIndex_find by fastforce
  have "find (\<lambda>u. username u = username usr) ((users st)[i := usr']) = Some usr'"
    using find_update [OF i] assms(2) by simp
  with i cu ne assms(2) show ?thesis
    by (simp add: getCurrentUserObject_def updateUser_def getUsers_def saveUsers_def)
qed

lemma find_Some_sat: "find P xs = Some x \<Longrightarrow> P x"
  by (induction xs) (auto split: if_splits)

lemma find_same_username:
  assumes "find (\<lambda>u. f (username u) = f n) xs = Some u"
  shows "find (\<lambda>v. username v = username u) xs = Some u"
  using assms by (induction xs) (auto split: if_splits dest: find_Some_sat)


lemma getCurrentUserObject_None:
  "currentUser st = None \<or> (\<forall>u \<in> set (users st). Some (username u) \<noteq> currentUser st) \<Longrightarrow>
   getCurrentUserObject st = None"
  by (auto simp add: getCurrentUserObject_def getUsers_def find_None_iff split: option.splits)

section \<open>What the accepted calls return\<close>

lemma find_append_None: "find P xs = None \<Longrightarrow> find P (xs @ ys) = find P ys"
  by (induction xs) (auto split: if_splits)

lemma investCoins_accepted:
  assumes "getCurrentUserObject st = Some usr" and "0 < a" and "a \<le> coins usr"
  shows "investCoins symb (Some a) st =
           (Bought (fst (getStockPrice symb st)) (a / fst (getStockPrice symb st)),
            updateUser
              (usr\<lparr>coins := toFixed2 (coins usr - a),
                    portfolio := portfolio usr @
                      [\<lparr>symbol = symb, quantity = a / fst (getStockPrice symb st),
                        priceAtPurchase = fst (getStockPrice symb st),
                        investedAmount = a\<rparr>]\<rparr>)
              (snd (getStockPrice symb st)))"
  using assms by (simp add: investCoins_def Let_def case_prod_beta)

lemma sellInvestment_accepted:
  assumes "getCurrentUserObject st = Some usr"
    and "0 \<le> index" and "index < int (length (portfolio usr))"
  shows "sellInvestment r index st =
           (Sold (quantity (portfolio usr ! nat index) *
                  fst (updateStockPrice r (symbol (portfolio usr ! nat index)) st)),
            updateUser
              (usr\<lparr>coins := toFixed2 (coins usr + quantity (portfolio usr ! nat index) *
                         fst (updateStockPrice r (symbol (portfolio usr ! nat index)) st)),
                    portfolio := take (nat index) (portfolio usr) @
                                 drop (Suc (nat index)) (portfolio usr)\<rparr>)
              (snd (updateStockPrice r (symbol (portfolio usr ! nat index)) st)))"
  using assms by (simp add: sellInvestment_def Let_def case_prod_beta)

section \<open>Buying\<close>



section \<open>Selling\<close>

text \<open>
  Claim C6. For a logged-in user and an index outside the portfolio (\<open>index < 0\<close> or
  \<open>index \<ge> length\<close>), \<open>sellInvestment(index)\<close> returns \<open>{success: false}\<close> and the storage
  (the users with their holdings and balances, the price table, the session entry) is
  what it was.
\<close>

theorem sellInvestment_out_of_range:
  assumes "getCurrentUserObject st = Some usr"
    and "index < 0 \<or> int (length (portfolio usr)) \<le> index"
  shows "sellInvestment r index st = (Failed, st)"
  using assms by (auto simp add: sellInvestment_def)

theorem sellInvestment_out_of_range_witness:
  "getCurrentUserObject boughtStorage = Some boughtUser \<and>
   ((1::int) < 0 \<or> int (length (portfolio boughtUser)) \<le> 1) \<and>
   sellInvestment (1 / 2) 1 boughtStorage = (Failed, boughtStorage)"
proof -
  have h1: "getCurrentUserObject boughtStorage = Some boughtUser" by code_simp
  have h2: "(1::int) < 0 \<or> int (length (portfolio boughtUser)) \<le> 1" by code_simp
  from sellInvestment_out_of_range [OF h1 h2] h1 h2 show ?thesis by blast
qed



section \<open>Operations without a session\<close>

text \<open>
  Claim C9. When the session entry is absent, or names no stored user, \<open>investCoins\<close>
  returns the failure \<open>Not logged in.\<close> and \<open>sellInvestment\<close> returns \<open>{success: false}\<close>,
  and both leave the storage as it was.
\<close>

theorem not_logged_in_rejected:
  assumes "currentUser st = None \<or> (\<forall>u \<in> set (users st). Some (username u) \<noteq> currentUser st)"
  shows "investCoins symb amount st = (Failure ''Not logged in.'', st) \<and>
         sellInvestment r index st = (Failed, st)"
  using getCurrentUserObject_None [OF assms]
  by (simp add: investCoins_def sellInvestment_def)

theorem not_logged_in_rejected_witness:
  "currentUser emptyStorage = None \<and>
   investCoins ''AAPL'' (Some 10) emptyStorage = (Failure ''Not logged in.'', emptyStorage) \<and>
   sellInvestment (1 / 2) 0 emptyStorage = (Failed, emptyStorage) \<and>
   currentUser strangerStorage = Some ''bob'' \<and>
   map username (users strangerStorage) = [''alice''] \<and>
   investCoins ''AAPL'' (Some 10) strangerStorage = (Failure ''Not logged in.'', strangerStorage) \<and>
   sellInvestment (1 / 2) 0 strangerStorage = (Failed, strangerStorage)"
proof -
  have h1: "currentUser emptyStorage = None" by code_simp
  have h2: "currentUser strangerStorage = Some ''bob''"
    and h3: "map username (users strangerStorage) = [''alice'']" by code_simp+
  from h3 have "set (map username (users strangerStorage)) = {''alice''}" by simp
  then have "\<forall>u \<in> set (users strangerStorage). username u = ''alice''" by auto
  with h2 have h4: "\<forall>u \<in> set (users strangerStorage). Some (username u) \<noteq> currentUser strangerStorage"
    by simp
  from not_logged_in_rejected [OF disjI1, OF h1, of "''AAPL''" "Some 10" "1 / 2" 0]
    not_logged_in_rejected [OF disjI2, OF h4, of "''AAPL''" "Some 10" "1 / 2" 0] h1 h2 h3
  show ?thesis by simp
qed

section \<open>Failures change nothing\<close>

lemma registerUser_failure:
  "\<not> success (fst (registerUser pf uname ag password st)) \<Longrightarrow>
   snd (registerUser pf uname ag password st) = st"
  by (cases ag;
      cases "find (\<lambda>u. toLowerCase pf (username u) = toLowerCase pf uname) (getUsers st)")
     (simp_all add: registerUser_def Let_def split: if_splits)

lemma loginUser_failure:
  "\<not> success (fst (loginUser pf uname password st)) \<Longrightarrow>
   snd (loginUser pf uname password st) = st"
  by (cases "find (\<lambda>u. toLowerCase pf (username u) = toLowerCase pf uname) (getUsers st)")
     (simp_all add: loginUser_def Let_def split: if_splits)

lemma investCoins_failure:
  "\<not> success (fst (investCoins symb amount st)) \<Longrightarrow> snd (investCoins symb amount st) = st"
  by (cases "getCurrentUserObject st"; cases amount)
     (simp_all add: investCoins_def Let_def case_prod_beta split: if_splits)

lemma sellInvestment_failure:
  "\<not> success (fst (sellInvestment r index st)) \<Longrightarrow> snd (sellInvestment r index st) = st"
  by (cases "getCurrentUserObject st")
     (auto simp add: sellInvestment_def Let_def case_prod_beta split: if_splits)

lemma updatePortfolio_failure:
  "updatePortfolio rnd st = Some (res, st') \<Longrightarrow> \<not> success res \<Longrightarrow> st' = st"
  by (cases "getCurrentUserObject st")
     (auto simp add: updatePortfolio_def split: option.splits)

text \<open>The calls that fail are the ones the specification lists, and the calls without a session.\<close>

lemma registerUser_fails_iff:
  "\<not> success (fst (registerUser pf uname ag password st)) \<longleftrightarrow>
     uname = [] \<or> ag = None \<or> the ag < 13 \<or>
     (\<exists>u \<in> set (users st). toLowerCase pf (username u) = toLowerCase pf uname)"
  by (auto simp add: registerUser_def getUsers_def Let_def find_None_iff find_Some_iff
      split: option.splits)

lemma loginUser_fails_iff:
  "\<not> success (fst (loginUser pf uname password st)) \<longleftrightarrow>
     (case find (\<lambda>u. toLowerCase pf (username u) = toLowerCase pf uname) (users st) of
        None \<Rightarrow> True
      | Some u \<Rightarrow> sha256hex pf password \<noteq> passwordHash u)"
  by (simp add: loginUser_def getUsers_def Let_def split: option.splits)

lemma investCoins_fails_iff:
  "\<not> success (fst (investCoins symb amount st)) \<longleftrightarrow>
     (case getCurrentUserObject st of
        None \<Rightarrow> True
      | Some usr \<Rightarrow> amount = None \<or> the amount \<le> 0 \<or> coins usr < the amount)"
  by (auto simp add: investCoins_def Let_def case_prod_beta split: option.splits)

lemma sellInvestment_fails_iff:
  "\<not> success (fst (sellInvestment r index st)) \<longleftrightarrow>
     (case getCurrentUserObject st of
        None \<Rightarrow> True
      | Some usr \<Rightarrow> index < 0 \<or> int (length (portfolio usr)) \<le> index)"
  by (auto simp add: sellInvestment_def Let_def case_prod_beta split: option.splits)

text \<open>
  Claim C4. A call of \<open>registerUser\<close>, \<open>loginUser\<close>, \<open>investCoins\<close> or \<open>sellInvestment\<close>
  (and of \<open>updatePortfolio\<close>) that returns \<open>success: false\<close> leaves the storage, that is the
  users, the price table and the session entry, exactly as it was.
\<close>

theorem failure_no_op:
  "(\<not> success (fst (registerUser pf uname ag password st)) \<longrightarrow>
      snd (registerUser pf uname ag password st) = st) \<and>
   (\<not> success (fst (loginUser pf lname lpassword st)) \<longrightarrow>
      snd (loginUser pf lname lpassword st) = st) \<and>
   (\<not> success (fst (investCoins symb amount st)) \<longrightarrow>
      snd (investCoins symb amount st) = st) \<and>
   (\<not> success (fst (sellInvestment r index st)) \<longrightarrow>
      snd (sellInvestment r index st) = st) \<and>
   (\<forall>res st'. updatePortfolio rnd st = Some (res, st') \<longrightarrow> \<not> success res \<longrightarrow> st' = st)"
  using registerUser_failure loginUser_failure investCoins_failure sellInvestment_failure
    updatePortfolio_failure
  by blast

theorem failure_no_op_witness:
  "\<not> success (fst (registerUser demoPlatform ''bob'' (Some 12) ''pw'' aliceStorage)) \<and>
   snd (registerUser demoPlatform ''bob'' (Some 12) ''pw'' aliceStorage) = aliceStorage \<and>
   \<not> success (fst (loginUser demoPlatform ''alice'' ''guess'' aliceStorage)) \<and>
   snd (loginUser demoPlatform ''alice'' ''guess'' aliceStorage) = aliceStorage \<and>
   \<not> success (fst (investCoins ''AAPL'' (Some 100001) aliceStorage)) \<and>
   snd (investCoins ''AAPL'' (Some 100001) aliceStorage) = aliceStorage \<and>
   \<not> success (fst (sellInvestment (1 / 2) 0 aliceStorage)) \<and>
   snd (sellInvestment (1 / 2) 0 aliceStorage) = aliceStorage \<and>
   updatePortfolio lowDraws emptyStorage = Some (Failed, emptyStorage)"
proof -
  have h1: "\<not> success (fst (registerUser demoPlatform ''bob'' (Some 12) ''pw'' aliceStorage))"
    by code_simp
  have h2: "\<not> success (fst (loginUser demoPlatform ''alice'' ''guess'' aliceStorage))"
    by code_simp
  have h3: "\<not> success (fst (investCoins ''AAPL'' (Some 100001) aliceStorage))"
    by code_simp
  have h4: "\<not> success (fst (sellInvestment (1 / 2) 0 aliceStorage))"
    by code_simp
  have h5: "updatePortfolio lowDraws emptyStorage = Some (Failed, emptyStorage)"
    by (simp add: updatePortfolio_def getCurrentUserObject_def emptyStorage_def)
  from failure_no_op [where pf = demoPlatform and uname = "''bob''" and ag = "Some 12"
      and password = "''pw''" and st = aliceStorage and lname = "''alice''"
      and lpassword = "''guess''" and symb = "''AAPL''" and amount = "Some 100001"
      and r = "1 / 2" and index = 0] h1 h2 h3 h4 h5
  show ?thesis by blast
qed

section \<open>Registration and login\<close>

text \<open>
  Claim C8. When the stored users contain a record whose username equals the requested
  one after \<open>toLowerCase\<close>, \<open>registerUser\<close> fails and leaves the storage, with every stored
  record, as it was, whatever the casing of the request; when the request has a username
  and an age of at least 13 the failure is \<open>Username already exists.\<close>
\<close>

theorem registerUser_duplicate:
  assumes "u \<in> set (users st)"
    and "toLowerCase pf (username u) = toLowerCase pf uname"
  shows "\<not> success (fst (registerUser pf uname ag password st)) \<and>
         snd (registerUser pf uname ag password st) = st \<and>
         (uname \<noteq> [] \<and> ag \<noteq> None \<and> 13 \<le> the ag \<longrightarrow>
            fst (registerUser pf uname ag password st) = Failure ''Username already exists.'')"
proof -
  from assms
  have "find (\<lambda>u. toLowerCase pf (username u) = toLowerCase pf uname) (users st) \<noteq> None"
    by (auto simp add: find_None_iff)
  then show ?thesis
    by (auto simp add: registerUser_def getUsers_def Let_def split: option.splits)
qed

theorem registerUser_duplicate_witness:
  "aliceUser \<in> set (users aliceStorage) \<and>
   toLowerCase demoPlatform (username aliceUser) = toLowerCase demoPlatform ''ALICE'' \<and>
   snd (registerUser demoPlatform ''ALICE'' (Some 30) ''other'' aliceStorage) = aliceStorage \<and>
   fst (registerUser demoPlatform ''ALICE'' (Some 30) ''other'' aliceStorage) =
     Failure ''Username already exists.''"
proof -
  have h1: "aliceUser \<in> set (users aliceStorage)" by code_simp
  have h2: "toLowerCase demoPlatform (username aliceUser) = toLowerCase demoPlatform ''ALICE''"
    by code_simp
  from registerUser_duplicate [OF h1 h2, of "Some 30" "''other''"] h1 h2
  show ?thesis by simp
qed

text \<open>A login with any casing of a stored username and the right password succeeds.\<close>

lemma loginUser_succeeds:
  assumes "find (\<lambda>u. toLowerCase pf (username u) = toLowerCase pf uname) (users st) = Some u"
    and "sha256hex pf password = passwordHash u"
  shows "loginUser pf uname password st = (Success, st\<lparr>currentUser := Some (username u)\<rparr>)"
  using assms by (simp add: loginUser_def getUsers_def)

text \<open>
  Claim C10. A successful \<open>loginUser\<close> has found a stored record whose username equals the
  typed one after \<open>toLowerCase\<close> and whose hash is the one of the password, and has set the
  session entry to the username of that record as it is stored (nothing else changes); then
  \<open>getCurrentUserObject\<close>, which compares with \<open>===\<close>, returns that very record. The
  stored username is taken to be non-empty, as every username that \<open>registerUser\<close> stores
  is: an empty session entry reads as no session.
\<close>

theorem loginUser_marker:
  assumes "success (fst (loginUser pf uname password st))"
  shows "\<exists>u \<in> set (users st).
           toLowerCase pf (username u) = toLowerCase pf uname \<and>
           sha256hex pf password = passwordHash u \<and>
           snd (loginUser pf uname password st) = st\<lparr>currentUser := Some (username u)\<rparr> \<and>
           (username u \<noteq> [] \<longrightarrow>
              getCurrentUserObject (snd (loginUser pf uname password st)) = Some u)"
proof -
  from assms obtain u where
    f: "find (\<lambda>u. toLowerCase pf (username u) = toLowerCase pf uname) (users st) = Some u"
    and h: "sha256hex pf password = passwordHash u"
    and s: "snd (loginUser pf uname password st) = st\<lparr>currentUser := Some (username u)\<rparr>"
    by (auto simp add: loginUser_def getUsers_def Let_def split: option.splits if_splits)
  from f have m: "u \<in> set (users st)" "toLowerCase pf (username u) = toLowerCase pf uname"
    by (auto simp add: find_Some_iff)
  have "username u \<noteq> [] \<longrightarrow> getCurrentUserObject (snd (loginUser pf uname password st)) = Some u"
    using find_same_username [OF f] s by (simp add: getCurrentUserObject_def getUsers_def)
  with m h s show ?thesis by blast
qed

theorem loginUser_marker_witness:
  "success (fst (loginUser demoPlatform ''ALICE'' ''pw'' loggedOutStorage)) \<and>
   currentUser loggedOutStorage = None \<and>
   currentUser (snd (loginUser demoPlatform ''ALICE'' ''pw'' loggedOutStorage)) = Some ''alice'' \<and>
   getCurrentUserObject (snd (loginUser demoPlatform ''ALICE'' ''pw'' loggedOutStorage)) =
     Some aliceUser"
proof -
  have h: "success (fst (loginUser demoPlatform ''ALICE'' ''pw'' loggedOutStorage))"
    by code_simp
  have us: "users loggedOutStorage = [aliceUser]" and n: "username aliceUser = ''alice''"
    and c: "currentUser loggedOutStorage = None"
    by code_simp+
  from loginUser_marker [OF h] us obtain u where
    "u = aliceUser"
    "snd (loginUser demoPlatform ''ALICE'' ''pw'' loggedOutStorage) =
       loggedOutStorage\<lparr>currentUser := Some (username u)\<rparr>"
    "username u \<noteq> [] \<longrightarrow>
       getCurrentUserObject (snd (loginUser demoPlatform ''ALICE'' ''pw'' loggedOutStorage)) = Some u"
    by auto
  with h n c show ?thesis by simp
qed

section \<open>The price update\<close>





section \<open>Revaluation\<close>




section \<open>The balance after an accepted call\<close>

lemma registerUser_accepted:
  assumes "success (fst (registerUser pf uname ag password st))"
  shows "getCurrentUserObject (snd (registerUser pf uname ag password st)) =
           Some \<lparr>username = uname, age = the ag, passwordHash = sha256hex pf password,
                 coins = 100000, portfolio = []\<rparr>"
proof -
  from assms obtain a where ne: "uname \<noteq> []" and ag: "ag = Some a" and a: "\<not> a < 13"
    and f: "find (\<lambda>u. toLowerCase pf (username u) = toLowerCase pf uname) (users st) = None"
    by (auto simp add: registerUser_def getUsers_def Let_def split: option.splits if_splits)
  from f have "find (\<lambda>u. username u = uname) (users st) = None"
    by (auto simp add: find_None_iff)
  then have "find (\<lambda>u. username u = uname)
      (users st @ [\<lparr>username = uname, age = a, passwordHash = sha256hex pf password,
                     coins = 100000, portfolio = []\<rparr>]) =
      Some \<lparr>username = uname, age = a, passwordHash = sha256hex pf password,
             coins = 100000, portfolio = []\<rparr>"
    by (simp add: find_append_None)
  with ne ag a f show ?thesis
    by (simp add: registerUser_def getCurrentUserObject_def getUsers_def saveUsers_def Let_def)
qed

lemma investCoins_balance:
  assumes "success (fst (investCoins symb amount st))"
  shows "\<exists>u. getCurrentUserObject (snd (investCoins symb amount st)) = Some u \<and> 0 \<le> coins u"
proof -
  from assms obtain usr a where cur: "getCurrentUserObject st = Some usr"
    and am: "amount = Some a" and a: "0 < a" "a \<le> coins usr"
    using investCoins_fails_iff [of symb amount st]
    by (auto split: option.splits)
  have cur1: "getCurrentUserObject (snd (getStockPrice symb st)) = Some usr"
    using getCurrentUserObject_frame [OF getStockPrice_frame, of symb st] cur by simp
  show ?thesis
    unfolding am investCoins_accepted [OF cur a]
    using getCurrentUserObject_updateUser [OF cur1] a(2)
    by (simp add: toFixed2_nonneg)
qed

lemma sellInvestment_balance:
  assumes "success (fst (sellInvestment r index st))"
  shows "\<exists>usr u. getCurrentUserObject st = Some usr \<and>
           getCurrentUserObject (snd (sellInvestment r index st)) = Some u \<and>
           (0 \<le> coins usr \<and> 0 \<le> quantity (portfolio usr ! nat index) \<longrightarrow> 0 \<le> coins u)"
proof -
  from assms obtain usr where cur: "getCurrentUserObject st = Some usr"
    and i: "0 \<le> index" "index < int (length (portfolio usr))"
    using sellInvestment_fails_iff [of r index st]
    by (auto split: option.splits)
  let ?h = "portfolio usr ! nat index"
  have cur1: "getCurrentUserObject (snd (updateStockPrice r (symbol ?h) st)) = Some usr"
    using getCurrentUserObject_frame [OF updateStockPrice_frame, of r "symbol ?h" st] cur
    by simp
  have "0 \<le> fst (updateStockPrice r (symbol ?h) st)"
    using updateStockPrice_ge1 [of r "symbol ?h" st] by simp
  then have "0 \<le> coins usr \<and> 0 \<le> quantity ?h \<longrightarrow>
      0 \<le> toFixed2 (coins usr + quantity ?h * fst (updateStockPrice r (symbol ?h) st))"
    by (simp add: toFixed2_nonneg)
  then show ?thesis
    unfolding sellInvestment_accepted [OF cur i]
    using getCurrentUserObject_updateUser [OF cur1] cur
    by simp
qed

text \<open>
  Claim C1, as the code has it. After an accepted \<open>registerUser\<close> the current user's balance
  is 100000; after an accepted \<open>investCoins\<close> it is at least 0; after an accepted
  \<open>sellInvestment\<close> it is at least 0 when the balance before was at least 0 and the quantity
  of the holding sold is not negative. \<open>updatePortfolio\<close> is not in the list: it adds the
  signed profit or loss of every holding to the balance and has no floor.
\<close>

theorem accepted_balance_nonneg:
  "(success (fst (registerUser pf uname ag password st)) \<longrightarrow>
      (\<exists>u. getCurrentUserObject (snd (registerUser pf uname ag password st)) = Some u \<and>
           coins u = 100000)) \<and>
   (success (fst (investCoins symb amount st)) \<longrightarrow>
      (\<exists>u. getCurrentUserObject (snd (investCoins symb amount st)) = Some u \<and>
           0 \<le> coins u)) \<and>
   (success (fst (sellInvestment r index st)) \<longrightarrow>
      (\<exists>usr u. getCurrentUserObject st = Some usr \<and>
         getCurrentUserObject (snd (sellInvestment r index st)) = Some u \<and>
         (0 \<le> coins usr \<and> 0 \<le> quantity (portfolio usr ! nat index) \<longrightarrow> 0 \<le> coins u)))"
  using registerUser_accepted [of pf uname ag password st]
    investCoins_balance [of symb amount st] sellInvestment_balance [of r index st]
  by simp

theorem accepted_balance_nonneg_witness:
  "success (fst (registerUser demoPlatform ''alice'' (Some 20) ''pw'' emptyStorage)) \<and>
   (\<exists>u. getCurrentUserObject aliceStorage = Some u \<and> coins u = 100000) \<and>
   success (fst (investCoins ''AAPL'' (Some 1000) aliceStorage)) \<and>
   (\<exists>u. getCurrentUserObject boughtStorage = Some u \<and> 0 \<le> coins u) \<and>
   success (fst (sellInvestment (3 / 4) 0 boughtStorage)) \<and>
   (\<exists>u. getCurrentUserObject (snd (sellInvestment (3 / 4) 0 boughtStorage)) = Some u \<and>
        0 \<le> coins u)"
proof -
  have h1: "success (fst (registerUser demoPlatform ''alice'' (Some 20) ''pw'' emptyStorage))"
    by code_simp
  have h2: "success (fst (investCoins ''AAPL'' (Some 1000) aliceStorage))" by code_simp
  have h3: "success (fst (sellInvestment (3 / 4) 0 boughtStorage))" by code_simp
  have c: "getCurrentUserObject boughtStorage = Some boughtUser" "0 \<le> coins boughtUser"
    "0 \<le> quantity (portfolio boughtUser ! nat 0)"
    by code_simp+
  have r: "\<exists>u. getCurrentUserObject aliceStorage = Some u \<and> coins u = 100000"
    using accepted_balance_nonneg [where pf = demoPlatform and uname = "''alice''"
        and ag = "Some 20" and password = "''pw''" and st = emptyStorage] h1
    by (simp add: aliceStorage_def)
  have b: "\<exists>u. getCurrentUserObject boughtStorage = Some u \<and> 0 \<le> coins u"
    using accepted_balance_nonneg [where symb = "''AAPL''" and amount = "Some 1000"
        and st = aliceStorage] h2
    by (simp add: boughtStorage_def)
  have s: "\<exists>u. getCurrentUserObject (snd (sellInvestment (3 / 4) 0 boughtStorage)) = Some u \<and>
               0 \<le> coins u"
    using accepted_balance_nonneg [where r = "3 / 4" and index = 0 and st = boughtStorage] h3 c
    by auto
  from h1 h2 h3 r b s show ?thesis by blast
qed

text \<open>
  The claim C1 as it is written fails for \<open>updatePortfolio\<close>. Alice registers and puts all
  her 100000 coins into AAPL at 150, so that her balance is 0. Then \<open>updatePortfolio\<close> runs
  and \<open>Math.random()\<close> returns 0: the price falls by 5 percent to 142.5, the call succeeds,
  and her balance is -5000.
\<close>

theorem revalue_negative_balance:
  "success (fst (investCoins ''AAPL'' (Some 100000) aliceStorage)) \<and>
   map_option coins (getCurrentUserObject allInStorage) = Some 0 \<and>
   map_option fst (updatePortfolio lowDraws allInStorage) = Some Success \<and>
   map_option coins (getCurrentUserObject (snd (the (updatePortfolio lowDraws allInStorage)))) =
     Some (- 5000)"
  by code_simp

text \<open>
  A sale from a negative balance can leave it negative, which is why the statement above asks
  for a balance of at least 0 before the sale: with AAPL bought for 99999 and AMZN for 1, a
  revaluation at the least draws leaves the balance at -5000, and the sale of the AMZN
  holding brings 0.95.
\<close>

lemma sell_with_negative_balance:
  "map_option coins (getCurrentUserObject debtStorage) = Some (- 5000) \<and>
   fst (sellInvestment (1 / 2) 1 debtStorage) = Sold (19 / 20) \<and>
   map_option coins (getCurrentUserObject (snd (sellInvestment (1 / 2) 1 debtStorage))) =
     Some (- (99981 / 20))"
  by code_simp

section \<open>Reachable storages are well-formed\<close>

lemma wellformed_emptyStorage: "wellformed emptyStorage"
  by (simp add: wellformed_def emptyStorage_def)

lemma wellformed_session:
  "wellformed (st\<lparr>currentUser := c\<rparr>) = wellformed st"
  by (simp add: wellformed_def)

lemma wellformed_registerUser:
  "wellformed st \<Longrightarrow> wellformed (snd (registerUser pf uname ag password st))"
  by (auto simp add: registerUser_def wellformed_def wfUser_def getUsers_def saveUsers_def
      Let_def split: option.splits)

lemma wellformed_loginUser:
  "wellformed st \<Longrightarrow> wellformed (snd (loginUser pf uname password st))"
  by (auto simp add: loginUser_def wellformed_def getUsers_def Let_def split: option.splits)

lemma wellformed_logout: "wellformed st \<Longrightarrow> wellformed (logout st)"
  by (simp add: logout_def wellformed_def)

lemma ran_upd_ge1:
  "\<forall>p \<in> ran m. (1::rat) \<le> p \<Longrightarrow> 1 \<le> v \<Longrightarrow> \<forall>p \<in> ran (m(k \<mapsto> v)). 1 \<le> p"
  by (auto simp add: ran_def split: if_splits)

lemma getStockPrice_ge1:
  assumes "\<forall>p \<in> ran (stockPrices st). 1 \<le> p"
  shows "1 \<le> fst (getStockPrice symb st)"
proof (cases "truthy (stockPrices st symb)")
  case True
  then obtain p where "stockPrices st symb = Some p" by (auto simp add: truthy_def split: option.splits)
  with assms True show ?thesis
    by (auto simp add: getStockPrice_def getStockPrices_def ran_def)
next
  case False
  then show ?thesis
    using base_ge100 [of symb]
    by (auto simp add: getStockPrice_def getStockPrices_def Let_def)
qed

lemma getStockPrice_prices:
  "stockPrices (snd (getStockPrice symb st)) = stockPrices st \<or>
   stockPrices (snd (getStockPrice symb st)) = (stockPrices st)(symb \<mapsto> fst (getStockPrice symb st))"
  by (simp add: getStockPrice_def getStockPrices_def saveStockPrices_def Let_def)

lemma wellformed_getStockPrice:
  assumes "wellformed st"
  shows "wellformed (snd (getStockPrice symb st))"
proof -
  from assms have p: "\<forall>p \<in> ran (stockPrices st). 1 \<le> p" by (simp add: wellformed_def)
  have "\<forall>p \<in> ran (stockPrices (snd (getStockPrice symb st))). 1 \<le> p"
    using getStockPrice_prices [of symb st] ran_upd_ge1 [OF p getStockPrice_ge1 [OF p]]
    using p by metis
  with assms show ?thesis by (simp add: wellformed_def getStockPrice_frame)
qed

lemma wellformed_updateStockPrice:
  assumes "wellformed st"
  shows "wellformed (snd (updateStockPrice r symb st))"
proof -
  from assms have p: "\<forall>p \<in> ran (stockPrices st). 1 \<le> p" by (simp add: wellformed_def)
  have "\<forall>p \<in> ran (stockPrices (snd (updateStockPrice r symb st))). 1 \<le> p"
    unfolding updateStockPrice_prices
    by (rule ran_upd_ge1 [OF p updateStockPrice_ge1])
  with assms show ?thesis by (simp add: wellformed_def updateStockPrice_frame)
qed

lemma wellformed_updateUser:
  assumes "wellformed st" and "wfUser u"
  shows "wellformed (updateUser u st)"
proof -
  have "set (users (updateUser u st)) \<subseteq> insert u (set (users st))"
    using set_update_subset_insert [of "users st" _ u]
    by (auto simp add: updateUser_def getUsers_def saveUsers_def Let_def split: option.splits)
  with assms show ?thesis
    by (auto simp add: wellformed_def updateUser_frame)
qed

lemma getCurrentUserObject_member:
  "getCurrentUserObject st = Some usr \<Longrightarrow> usr \<in> set (users st)"
  by (auto simp add: getCurrentUserObject_def getUsers_def find_Some_iff
      split: option.splits if_splits)

lemma wellformed_investCoins:
  assumes "wellformed st"
  shows "wellformed (snd (investCoins symb amount st))"
proof (cases "success (fst (investCoins symb amount st))")
  case False
  with assms show ?thesis by (simp add: investCoins_failure)
next
  case True
  then obtain usr a where cur: "getCurrentUserObject st = Some usr"
    and am: "amount = Some a" and a: "0 < a" "a \<le> coins usr"
    using investCoins_fails_iff [of symb amount st] by (auto split: option.splits)
  from assms have p: "\<forall>p \<in> ran (stockPrices st). 1 \<le> p" by (simp add: wellformed_def)
  from assms getCurrentUserObject_member [OF cur] have u: "wfUser usr"
    by (simp add: wellformed_def)
  have "wfHolding \<lparr>symbol = symb, quantity = a / fst (getStockPrice symb st),
                   priceAtPurchase = fst (getStockPrice symb st), investedAmount = a\<rparr>"
    using getStockPrice_ge1 [OF p, of symb] a(1) by (simp add: wfHolding_def)
  with u have "wfUser (usr\<lparr>coins := toFixed2 (coins usr - a),
       portfolio := portfolio usr @
         [\<lparr>symbol = symb, quantity = a / fst (getStockPrice symb st),
           priceAtPurchase = fst (getStockPrice symb st), investedAmount = a\<rparr>]\<rparr>)"
    by (simp add: wfUser_def)
  then show ?thesis
    unfolding am investCoins_accepted [OF cur a]
    using wellformed_updateUser [OF wellformed_getStockPrice [OF assms]] by simp
qed

lemma wellformed_sellInvestment:
  assumes "wellformed st"
  shows "wellformed (snd (sellInvestment r index st))"
proof (cases "success (fst (sellInvestment r index st))")
  case False
  with assms show ?thesis by (simp add: sellInvestment_failure)
next
  case True
  then obtain usr where cur: "getCurrentUserObject st = Some usr"
    and i: "0 \<le> index" "index < int (length (portfolio usr))"
    using sellInvestment_fails_iff [of r index st] by (auto split: option.splits)
  from assms getCurrentUserObject_member [OF cur] have u: "wfUser usr"
    by (simp add: wellformed_def)
  have "set (take (nat index) (portfolio usr) @ drop (Suc (nat index)) (portfolio usr))
          \<subseteq> set (portfolio usr)"
    using set_take_subset set_drop_subset by fastforce
  with u have "wfUser (usr\<lparr>coins := toFixed2 (coins usr + quantity (portfolio usr ! nat index) *
                  fst (updateStockPrice r (symbol (portfolio usr ! nat index)) st)),
       portfolio := take (nat index) (portfolio usr) @ drop (Suc (nat index)) (portfolio usr)\<rparr>)"
    by (auto simp add: wfUser_def)
  then show ?thesis
    unfolding sellInvestment_accepted [OF cur i]
    using wellformed_updateUser [OF wellformed_updateStockPrice [OF assms]] by simp
qed

lemma revalue_wellformed:
  assumes "revalue rnd k hs st c = Some (hs', st', c')"
    and "wellformed st" and "\<forall>h \<in> set hs. wfHolding h"
  shows "wellformed st' \<and> users st' = users st \<and> currentUser st' = currentUser st \<and>
         (\<forall>h \<in> set hs'. wfHolding h)"
  using assms
proof (induction hs arbitrary: k st c hs' st' c')
  case Nil
  then show ?case by simp
next
  case (Cons h hs)
  let ?p = "fst (updateStockPrice (rnd k) (symbol h) st)"
  let ?st1 = "snd (updateStockPrice (rnd k) (symbol h) st)"
  let ?c1 = "toFixed2 (c + investedAmount h * ((?p - priceAtPurchase h) / priceAtPurchase h))"
  from Cons.prems(1) obtain hs1 where
    rec: "revalue rnd (Suc k) hs ?st1 ?c1 = Some (hs1, st', c')"
    and hs': "hs' = h\<lparr>priceAtPurchase := ?p, investedAmount := quantity h * ?p\<rparr> # hs1"
    by (auto simp add: Let_def case_prod_beta split: if_splits option.splits)
  have w1: "wellformed ?st1" by (rule wellformed_updateStockPrice [OF Cons.prems(2)])
  from Cons.prems(3) have rest: "\<forall>h \<in> set hs. wfHolding h" by simp
  from Cons.IH [OF rec w1 rest]
  have ih: "wellformed st'" "users st' = users ?st1" "currentUser st' = currentUser ?st1"
    "\<forall>h \<in> set hs1. wfHolding h" by simp_all
  from Cons.prems(3) have "wfHolding (h\<lparr>priceAtPurchase := ?p, investedAmount := quantity h * ?p\<rparr>)"
    using updateStockPrice_ge1 [of "rnd k" "symbol h" st] by (simp add: wfHolding_def)
  with ih hs' show ?case by (simp add: updateStockPrice_frame)
qed

lemma revalue_total:
  assumes "\<forall>h \<in> set hs. priceAtPurchase h \<noteq> 0"
  shows "revalue rnd k hs st c \<noteq> None"
  using assms
  by (induction hs arbitrary: k st c) (auto simp add: Let_def case_prod_beta split: option.splits)

lemma wellformed_updatePortfolio:
  assumes "wellformed st" and "updatePortfolio rnd st = Some (res, st')"
  shows "wellformed st'"
proof (cases "getCurrentUserObject st")
  case None
  with assms show ?thesis by (simp add: updatePortfolio_def)
next
  case (Some usr)
  with assms(2) obtain hs st1 c where
    rv: "revalue rnd 0 (portfolio usr) st (coins usr) = Some (hs, st1, c)"
    and st': "st' = updateUser (usr\<lparr>coins := c, portfolio := hs\<rparr>) st1"
    by (auto simp add: updatePortfolio_def split: option.splits)
  from assms(1) getCurrentUserObject_member [OF Some] have u: "wfUser usr"
    by (simp add: wellformed_def)
  then have "\<forall>h \<in> set (portfolio usr). wfHolding h" by (simp add: wfUser_def)
  from revalue_wellformed [OF rv assms(1) this] u
  have "wellformed st1" "wfUser (usr\<lparr>coins := c, portfolio := hs\<rparr>)"
    by (simp_all add: wfUser_def)
  then show ?thesis unfolding st' by (rule wellformed_updateUser)
qed

lemma reachable_wellformed: "reachable pf st \<Longrightarrow> wellformed st"
proof (induction rule: reachable.induct)
  case fresh
  show ?case by (rule wellformed_emptyStorage)
next
  case (revalueAll st rnd res st')
  then show ?case using wellformed_updatePortfolio by blast
qed (simp_all add: wellformed_registerUser wellformed_loginUser wellformed_logout
      wellformed_getStockPrice wellformed_updateStockPrice wellformed_investCoins
      wellformed_sellInvestment)

lemma updatePortfolio_total:
  assumes "wellformed st"
  shows "\<exists>res st'. updatePortfolio rnd st = Some (res, st')"
proof (cases "getCurrentUserObject st")
  case None
  then show ?thesis by (simp add: updatePortfolio_def)
next
  case (Some usr)
  from assms getCurrentUserObject_member [OF Some]
  have "\<forall>h \<in> set (portfolio usr). priceAtPurchase h \<noteq> 0"
    by (fastforce simp add: wellformed_def wfUser_def wfHolding_def)
  from revalue_total [OF this, of rnd 0 st "coins usr"] Some show ?thesis
    by (auto simp add: updatePortfolio_def split: option.splits)
qed

text \<open>What the well-formedness gives to the theorems above.\<close>

lemma wellformed_username:
  "wellformed st \<Longrightarrow> u \<in> set (users st) \<Longrightarrow> username u \<noteq> []"
  by (simp add: wellformed_def wfUser_def)

lemma wellformed_holding:
  assumes "wellformed st" and "getCurrentUserObject st = Some usr"
    and "h \<in> set (portfolio usr)"
  shows "priceAtPurchase h \<noteq> 0 \<and> 0 < quantity h"
  using assms getCurrentUserObject_member [OF assms(2)]
  by (fastforce simp add: wellformed_def wfUser_def wfHolding_def)

lemma wellformed_startPrice:
  assumes "wellformed st"
  shows "1 \<le> fst (startPrice symb st)"
proof -
  from assms have p: "\<forall>p \<in> ran (stockPrices st). 1 \<le> p" by (simp add: wellformed_def)
  show ?thesis
  proof (cases "truthy (stockPrices st symb)")
    case True
    then obtain q where "stockPrices st symb = Some q"
      by (auto simp add: truthy_def split: option.splits)
    with p True show ?thesis
      by (auto simp add: startPrice_def getStockPrices_def ran_def)
  next
    case False
    with getStockPrice_ge1 [OF p, of symb] show ?thesis
      by (simp add: startPrice_def getStockPrices_def)
  qed
qed

text \<open>The sample storages are reachable.\<close>

lemma aliceStorage_reachable: "reachable demoPlatform aliceStorage"
  unfolding aliceStorage_def by (rule reachable.register [OF reachable.fresh])

lemma boughtStorage_reachable: "reachable demoPlatform boughtStorage"
  unfolding boughtStorage_def by (rule reachable.invest [OF aliceStorage_reachable])

lemma allInStorage_reachable: "reachable demoPlatform allInStorage"
  unfolding allInStorage_def by (rule reachable.invest [OF aliceStorage_reachable])

lemma debtStorage_reachable: "reachable demoPlatform debtStorage"
proof -
  let ?st = "snd (investCoins ''AMZN'' (Some 1)
                (snd (investCoins ''AAPL'' (Some 99999) aliceStorage)))"
  have r: "reachable demoPlatform ?st"
    by (intro reachable.invest aliceStorage_reachable)
  from updatePortfolio_total [OF reachable_wellformed [OF r], of lowDraws]
  obtain res st' where u: "updatePortfolio lowDraws ?st = Some (res, st')" by blast
  have d: "\<forall>k. 0 \<le> lowDraws k \<and> lowDraws k < 1" by (simp add: lowDraws_def)
  from reachable.revalueAll [OF r d u] u show ?thesis by (simp add: debtStorage_def)
qed

end
